theory Spec2Isabelle
  imports Main
begin

section \<open>Strings and regular expressions of the chat page\<close>

text \<open>
  The development follows the chat page of the repository (the copy of
  \<^verbatim>\<open>page.tsx\<close> with the course sidebar, and the later copy that adds the notes
  uploader).  The helper functions \<^verbatim>\<open>normalizeMath\<close>, \<^verbatim>\<open>sanitizeInlineCitations\<close>
  and \<^verbatim>\<open>labelFromCourse\<close> are the same in every copy that has them.

  A JavaScript string is a sequence of UTF-16 code units.  A code unit is a natural
  number here, so that characters outside Latin-1 (the dash of the course label, the
  Unicode spaces that \<^verbatim>\<open>trim\<close> removes) are ordinary elements.
\<close>

type_synonym ustring = "nat list"

definition js :: "string \<Rightarrow> ustring" where
  "js cs = map of_char cs"

definition backslash :: ustring where
  "backslash = [92]"

definition is_digit :: "nat \<Rightarrow> bool" where
  "is_digit c = (48 \<le> c \<and> c \<le> 57)"

text \<open>
  A regular expression is modelled by its matcher at the start of the input: the
  result is the length of the match and the captured groups.  Every expression of the
  source is deterministic (each repetition is over a character class that excludes the
  character that has to follow it), so the greedy match of the engine is the longest
  run, and backtracking finds nothing else.
\<close>

type_synonym matcher = "ustring \<Rightarrow> (nat \<times> ustring list) option"

definition lit :: "ustring \<Rightarrow> matcher" where
  "lit p s = (if take (length p) s = p then Some (length p, []) else None)"

definition alt :: "matcher \<Rightarrow> matcher \<Rightarrow> matcher" where
  "alt r1 r2 s = (case r1 s of Some m \<Rightarrow> Some m | None \<Rightarrow> r2 s)"

text \<open>\<^verbatim>\<open>/\\\[/\<close>, \<^verbatim>\<open>/\\\]/\<close>, \<^verbatim>\<open>/\\\(/\<close> and \<^verbatim>\<open>/\\\)/\<close>: a backslash and a bracket.\<close>

definition re_display_open :: matcher where
  "re_display_open = lit (backslash @ js ''['')"

definition re_display_close :: matcher where
  "re_display_close = lit (backslash @ js '']'')"

definition re_inline_open :: matcher where
  "re_inline_open = lit (backslash @ js ''('')"

definition re_inline_close :: matcher where
  "re_inline_close = lit (backslash @ js '')'')"

text \<open>\<^verbatim>\<open>/\\\[|\\\]|\\\(|\\\)/\<close>, the test of \<^verbatim>\<open>normalizeMath\<close>.\<close>

definition re_legacy :: matcher where
  "re_legacy = alt re_display_open (alt re_display_close (alt re_inline_open re_inline_close))"

text \<open>\<^verbatim>\<open>/\\text\{[^}]*\}/\<close>: the wrapper, any run without a closing brace, a closing brace.\<close>

definition re_text_block :: matcher where
  "re_text_block s =
     (let p = backslash @ js ''text{'' in
      if take (length p) s = p then
        (let r = drop (length p) s;
             body = takeWhile (\<lambda>c. c \<noteq> 125) r
         in case drop (length body) r of
              [] \<Rightarrow> None
            | _ # _ \<Rightarrow> Some (length p + length body + 1, []))
      else None)"

text \<open>
  \<^verbatim>\<open>/\[([0-9]+)\]\([^)]+\)/\<close>: an opening bracket, one or more digits (group 1), a
  closing bracket and an opening parenthesis, one or more characters other than a
  closing parenthesis, a closing parenthesis.
\<close>

definition re_citation :: matcher where
  "re_citation s =
     (case s of
        [] \<Rightarrow> None
      | c # r \<Rightarrow>
          if c \<noteq> 91 then None
          else
            (let ds = takeWhile is_digit r;
                 r1 = drop (length ds) r
             in if ds = [] \<or> take 2 r1 \<noteq> js ''](''  then None
                else
                  (let r2 = drop 2 r1;
                       u = takeWhile (\<lambda>c. c \<noteq> 41) r2
                   in if u = [] then None
                      else
                        (case drop (length u) r2 of
                           [] \<Rightarrow> None
                         | _ # _ \<Rightarrow> Some (1 + length ds + 2 + length u + 1, [ds])))))"

text \<open>
  \<^verbatim>\<open>RegExp.prototype.test\<close> (no \<^verbatim>\<open>g\<close> flag): is there a match at some index of
  the string.
\<close>

fun regex_test :: "matcher \<Rightarrow> ustring \<Rightarrow> bool" where
  "regex_test re [] = (re [] \<noteq> None)"
| "regex_test re (c # cs) = (re (c # cs) \<noteq> None \<or> regex_test re cs)"

text \<open>
  The replacement patterns of \<^verbatim>\<open>String.prototype.replace\<close> (GetSubstitution of
  ECMAScript): in a replacement string, \<^verbatim>\<open>$$\<close> stands for one dollar sign,
  \<^verbatim>\<open>$&\<close> for the match, \<^verbatim>\<open>$`\<close> and \<^verbatim>\<open>$'\<close> for the text before and after the
  match, \<^verbatim>\<open>$n\<close> and \<^verbatim>\<open>$nn\<close> for a captured group; any other dollar sign stands
  for itself.
\<close>

definition digit_val :: "nat \<Rightarrow> nat" where
  "digit_val c = c - 48"

fun getSubstitution :: "ustring \<Rightarrow> ustring \<Rightarrow> ustring \<Rightarrow> ustring list \<Rightarrow> ustring \<Rightarrow> ustring" where
  "getSubstitution pre m post caps [] = []"
| "getSubstitution pre m post caps [c] = [c]"
| "getSubstitution pre m post caps (c # d # r) =
     (if c \<noteq> 36 then c # getSubstitution pre m post caps (d # r)
      else if d = 36 then 36 # getSubstitution pre m post caps r
      else if d = 38 then m @ getSubstitution pre m post caps r
      else if d = 96 then pre @ getSubstitution pre m post caps r
      else if d = 39 then post @ getSubstitution pre m post caps r
      else if is_digit d then
        (case r of
           e # r' \<Rightarrow>
             if is_digit e \<and> 1 \<le> 10 * digit_val d + digit_val e
                \<and> 10 * digit_val d + digit_val e \<le> length caps
             then caps ! (10 * digit_val d + digit_val e - 1) @ getSubstitution pre m post caps r'
             else if 1 \<le> digit_val d \<and> digit_val d \<le> length caps
             then caps ! (digit_val d - 1) @ getSubstitution pre m post caps r
             else c # getSubstitution pre m post caps (d # r)
         | [] \<Rightarrow>
             if 1 \<le> digit_val d \<and> digit_val d \<le> length caps
             then caps ! (digit_val d - 1)
             else [c, d])
      else c # getSubstitution pre m post caps (d # r))"

text \<open>
  \<^verbatim>\<open>String.prototype.replace\<close> with a global regular expression: the string is
  scanned from the left; where the expression matches, the replacement is emitted and
  the scan goes on behind the match (behind the next character when the match is
  empty); elsewhere the character is copied.  The replacement function gets the text
  before the match, the match, the text after it and the groups.
\<close>

fun replace_global ::
  "matcher \<Rightarrow> (ustring \<Rightarrow> ustring \<Rightarrow> ustring \<Rightarrow> ustring list \<Rightarrow> ustring) \<Rightarrow> ustring \<Rightarrow> ustring \<Rightarrow> ustring" where
  "replace_global re f pre [] =
     (case re [] of None \<Rightarrow> [] | Some (n, caps) \<Rightarrow> f pre [] [] caps)"
| "replace_global re f pre (c # cs) =
     (case re (c # cs) of
        None \<Rightarrow> c # replace_global re f (pre @ [c]) cs
      | Some (n, caps) \<Rightarrow>
          if n = 0 then f pre [] (c # cs) caps @ c # replace_global re f (pre @ [c]) cs
          else f pre (take n (c # cs)) (drop n (c # cs)) caps
               @ replace_global re f (pre @ take n (c # cs)) (drop n (c # cs)))"

definition replace_str :: "matcher \<Rightarrow> ustring \<Rightarrow> ustring \<Rightarrow> ustring" where
  "replace_str re template s =
     replace_global re (\<lambda>pre m post caps. getSubstitution pre m post caps template) [] s"

definition replace_fn :: "matcher \<Rightarrow> (ustring \<Rightarrow> ustring) \<Rightarrow> ustring \<Rightarrow> ustring" where
  "replace_fn re g s = replace_global re (\<lambda>pre m post caps. g m) [] s"

section \<open>The answer sanitizer\<close>

text \<open>
  \<^verbatim>\<open>normalizeMath\<close>: the empty string and a string without legacy delimiters are
  returned as they are; otherwise four global replacements run one after the other,
  with the replacement strings \<^verbatim>\<open>'$$'\<close>, \<^verbatim>\<open>'$$'\<close>, \<^verbatim>\<open>'$'\<close> and \<^verbatim>\<open>'$'\<close> of the
  source.
\<close>

definition normalizeMath :: "ustring \<Rightarrow> ustring" where
  "normalizeMath s =
     (if s = [] then s
      else if \<not> regex_test re_legacy s then s
      else replace_str re_inline_close (js ''$'')
             (replace_str re_inline_open (js ''$'')
               (replace_str re_display_close (js ''$$'')
                 (replace_str re_display_open (js ''$$'') s))))"

text \<open>
  \<^verbatim>\<open>sanitizeInlineCitations\<close>: every match of the wrapper expression is replaced by
  the result of the inner replacement on it, with the replacement string
  \<^verbatim>\<open>'[$1]'\<close>.
\<close>

definition strip_citation_links :: "ustring \<Rightarrow> ustring" where
  "strip_citation_links block = replace_str re_citation (js ''[$1]'') block"

definition sanitizeInlineCitations :: "ustring \<Rightarrow> ustring" where
  "sanitizeInlineCitations s = replace_fn re_text_block strip_citation_links s"

text \<open>The pipeline of \<^verbatim>\<open>ask\<close>: \<^verbatim>\<open>USE_MATH_NORMALIZER\<close> is the constant \<^verbatim>\<open>true\<close>.\<close>

definition sanitize :: "ustring \<Rightarrow> ustring" where
  "sanitize raw = sanitizeInlineCitations (normalizeMath raw)"

section \<open>Data of the page\<close>

text \<open>
  \<^verbatim>\<open>term?: string | null\<close>: the term of a course is a string, \<^verbatim>\<open>null\<close> or
  absent.  The fields of \<^verbatim>\<open>Course\<close> are \<^verbatim>\<open>id\<close>, \<^verbatim>\<open>name\<close> and \<^verbatim>\<open>term\<close>.
\<close>

datatype 'a nullable = Undefined | Null | Val 'a

record course =
  c_id :: ustring
  c_name :: ustring
  c_term :: "ustring nullable"

text \<open>
  A \<^verbatim>\<open>Source\<close> is only displayed; its relevance score (a floating point number) is
  left out.
\<close>

record source =
  marker :: ustring
  title :: "ustring nullable"
  url :: "ustring nullable"
  page :: "nat nullable"
  is_image :: bool

text \<open>The metadata of an answer is stored as it comes (\<^verbatim>\<open>any\<close>): its JSON text.\<close>

type_synonym json = ustring

text \<open>The state of \<^verbatim>\<open>ChatPage\<close>, one field for each \<^verbatim>\<open>useState\<close>.\<close>

record page =
  q :: ustring
  courseId :: ustring
  answer :: ustring
  sources :: "source list"
  meta :: "json option"
  loading :: bool
  err :: "ustring option"
  courseLabel :: ustring
  userId :: ustring
  courses :: "course list"
  loadingCourses :: bool
  creating :: bool
  newName :: ustring
  newTerm :: ustring

text \<open>
  What an asynchronous call delivers to the code that awaits it: \<^verbatim>\<open>fetch\<close> or the
  reading of the body rejects with an error (its \<^verbatim>\<open>message\<close> and its string form),
  or the response is not \<^verbatim>\<open>ok\<close> (its status and body text), or it is \<^verbatim>\<open>ok\<close>
  (status 200 to 299) and the body is read.
\<close>

datatype 'a fetched =
    Threw ustring ustring
  | NotOk nat ustring
  | Okay 'a

text \<open>The requests of the page and what else a handler shows outside the state.\<close>

record upfile =
  f_name :: ustring
  f_type :: ustring
  f_size :: nat

datatype request =
    GetCourses ustring
  | GetCourse ustring ustring
  | PostCourse ustring ustring ustring
  | PostAsk ustring ustring ustring ustring ustring
  | PostUpload ustring ustring ustring upfile

datatype effect =
    Fetch request
  | Alert ustring
  | Warn ustring

section \<open>Built-in string functions\<close>

text \<open>
  \<^verbatim>\<open>String.prototype.trim\<close> removes the white space and line terminators of
  ECMAScript from both ends: TAB, LF, VT, FF, CR, SP, NBSP, U+1680, U+2000 to U+200A,
  U+2028, U+2029, U+202F, U+205F, U+3000 and U+FEFF.
\<close>

definition is_js_space :: "nat \<Rightarrow> bool" where
  "is_js_space c =
     (c \<in> {9, 10, 11, 12, 13, 32, 160, 5760, 8232, 8233, 8239, 8287, 12288, 65279}
      \<or> (8192 \<le> c \<and> c \<le> 8202))"

definition trim :: "ustring \<Rightarrow> ustring" where
  "trim s = rev (dropWhile is_js_space (rev (dropWhile is_js_space s)))"

definition endsWith :: "ustring \<Rightarrow> ustring \<Rightarrow> bool" where
  "endsWith s suffix =
     (length suffix \<le> length s \<and> drop (length s - length suffix) s = suffix)"

text \<open>The decimal digits of a number, as a template literal prints a status.\<close>

fun show_nat :: "nat \<Rightarrow> ustring" where
  "show_nat n = (if n < 10 then [48 + n] else show_nat (n div 10) @ [48 + n mod 10])"

declare show_nat.simps [simp del]

text \<open>\<^verbatim>\<open>a || b\<close> on strings: the empty string is the only falsy string.\<close>

definition or_else :: "ustring \<Rightarrow> ustring \<Rightarrow> ustring" where
  "or_else a b = (if a \<noteq> [] then a else b)"

text \<open>
  An ASCII instance of \<^verbatim>\<open>toLowerCase\<close>, for concrete file names.  The uploader
  below takes the lower-casing function as a parameter.
\<close>

definition ascii_lower :: "ustring \<Rightarrow> ustring" where
  "ascii_lower s = map (\<lambda>c. if 65 \<le> c \<and> c \<le> 90 then c + 32 else c) s"

section \<open>Course label\<close>

text \<open>
  \<^verbatim>\<open>labelFromCourse\<close>: no course gives the empty label; a truthy term (a non-empty
  string) gives name, space, em dash (U+2014), space, term; otherwise the name.
\<close>

definition labelFromCourse :: "course option \<Rightarrow> ustring" where
  "labelFromCourse c =
     (case c of
        None \<Rightarrow> []
      | Some c' \<Rightarrow>
          (case c_term c' of
             Val t \<Rightarrow> if t \<noteq> [] then c_name c' @ js '' '' @ [8212] @ js '' '' @ t else c_name c'
           | _ \<Rightarrow> c_name c'))"

section \<open>Handlers of the page\<close>

text \<open>
  An asynchronous handler is a function of the state and of what its awaited request
  delivers; it returns the new state and the effects in the order of the source.  A
  handler that returns before its \<^verbatim>\<open>fetch\<close> has no \<^verbatim>\<open>Fetch\<close> among its effects.
  \<^verbatim>\<open>loadCourses\<close> and \<^verbatim>\<open>ask\<close> are given in two steps, before and after the
  \<^verbatim>\<open>await\<close>, since the properties below depend on what happens in between.
\<close>



text \<open>
  \<^verbatim>\<open>createCourse\<close>: the user id is checked first (an alert), then the trimmed name
  (a silent return); the body of the request carries the trimmed name and
  \<^verbatim>\<open>newTerm || ''\<close>.
\<close>

definition createCourse :: "page \<Rightarrow> course fetched \<Rightarrow> page \<times> effect list" where
  "createCourse st r =
     (if userId st = [] then
        (st, [Alert (js ''Please set your User ID (UUID) in the sidebar.'')])
      else if trim (newName st) = [] then (st, [])
      else
        (let req = Fetch (PostCourse (userId st) (trim (newName st)) (or_else (newTerm st) []))
         in case r of
              Okay row \<Rightarrow>
                (st\<lparr>courses := (if find (\<lambda>c. c_id c = c_id row) (courses st) \<noteq> None
                                then courses st else row # courses st),
                    courseId := c_id row, newName := [], newTerm := [],
                    creating := False\<rparr>,
                 [req])
            | Threw message str \<Rightarrow>
                (st\<lparr>creating := False\<rparr>,
                 [req, Alert (js ''Create failed: '' @ or_else message str)])
            | NotOk status body \<Rightarrow>
                (st\<lparr>creating := False\<rparr>,
                 [req, Alert (js ''Create failed: '' @ or_else body (js ''Error''))])))"

text \<open>
  The body of an answer.  \<^verbatim>\<open>data.answer || ''\<close> and the two source lists are read
  as a value or nothing.  \<^verbatim>\<open>data.meta\<close> is of any type and is stored as
  \<^verbatim>\<open>data.meta || null\<close>: it is absent, or a value with its JSON text that is falsy
  (\<^verbatim>\<open>null\<close>, \<^verbatim>\<open>false\<close>, \<^verbatim>\<open>0\<close>, the empty string) or truthy.
\<close>

datatype received = Absent | Falsy json | Truthy json

record ask_data =
  d_answer :: "ustring option"
  d_sources_dedup :: "source list option"
  d_sources :: "source list option"
  d_meta :: received

text \<open>
  \<^verbatim>\<open>ask\<close> in two steps.  \<^verbatim>\<open>ask_begin\<close> is the part before the \<^verbatim>\<open>await\<close>: the
  three checks, the clearing of the previous result and the request.  \<^verbatim>\<open>ask_end\<close>
  is the part that runs when the request has settled (the copy with the uploader
  also empties the question field on success).  Other handlers, also another
  \<^verbatim>\<open>ask\<close> (the Enter key calls it whatever \<^verbatim>\<open>loading\<close> is), can run between the
  two.
\<close>

definition ask_begin :: "page \<Rightarrow> page \<times> request option" where
  "ask_begin st =
     (if trim (q st) = [] then (st, None)
      else if userId st = [] then (st\<lparr>err := Some (js ''No user id set'')\<rparr>, None)
      else if courseId st = [] then
        (st\<lparr>err := Some (js ''No course selected. Create or pick a course on the left.'')\<rparr>, None)
      else
        (st\<lparr>loading := True, err := None, answer := [], sources := [], meta := None\<rparr>,
         Some (PostAsk (userId st) (courseId st) (q st) (js ''novice'') (js ''worked''))))"

definition ask_end :: "page \<Rightarrow> ask_data fetched \<Rightarrow> page" where
  "ask_end st r =
     (case r of
        Okay data \<Rightarrow>
          st\<lparr>answer := sanitize (case d_answer data of Some a \<Rightarrow> a | None \<Rightarrow> []),
             sources := (case d_sources_dedup data of
                           Some l \<Rightarrow> l
                         | None \<Rightarrow> (case d_sources data of Some l \<Rightarrow> l | None \<Rightarrow> [])),
             meta := (case d_meta data of Truthy v \<Rightarrow> Some v | _ \<Rightarrow> None),
             loading := False\<rparr>
      | NotOk status txt \<Rightarrow>
          st\<lparr>err := Some (or_else (or_else txt (js ''HTTP '' @ show_nat status)) (js ''Request failed'')),
             loading := False\<rparr>
      | Threw message str \<Rightarrow>
          st\<lparr>err := Some (or_else message (js ''Request failed'')), loading := False\<rparr>)"

definition ask :: "page \<Rightarrow> ask_data fetched \<Rightarrow> page \<times> effect list" where
  "ask st r =
     (case ask_begin st of
        (st', None) \<Rightarrow> (st', [])
      | (st', Some req) \<Rightarrow> (ask_end st' r, [Fetch req]))"

text \<open>
  \<^verbatim>\<open>hydrateLabel\<close>, the body of the label effect.  The flag \<^verbatim>\<open>cancelled\<close> is the
  value the handler reads after its \<^verbatim>\<open>await\<close>; before the \<^verbatim>\<open>await\<close> the effect
  has just started and the flag is still \<^verbatim>\<open>false\<close>.  Status 403 is tested before
  \<^verbatim>\<open>res.ok\<close>.
\<close>

definition hydrateLabel :: "page \<Rightarrow> bool \<Rightarrow> course fetched \<Rightarrow> page \<times> effect list" where
  "hydrateLabel st cancelled r =
     (if courseId st = [] then (st\<lparr>courseLabel := []\<rparr>, [])
      else
        (case find (\<lambda>c. c_id c = courseId st) (courses st) of
           Some local \<Rightarrow> (st\<lparr>courseLabel := labelFromCourse (Some local)\<rparr>, [])
         | None \<Rightarrow>
             (let new_label =
                    (case r of
                       NotOk status body \<Rightarrow>
                         if status = 403 then js ''(not your course)'' else js ''(unknown course)''
                     | Threw message str \<Rightarrow> js ''(unknown course)''
                     | Okay c \<Rightarrow> labelFromCourse (Some c))
              in (if cancelled then st else st\<lparr>courseLabel := new_label\<rparr>,
                  [Fetch (GetCourse (courseId st) (userId st))]))))"

section \<open>The notes uploader\<close>

datatype upload_kind = Pdf | Image

record uploader =
  up_open :: bool
  kind :: upload_kind
  up_file :: "upfile option"
  uploading :: bool
  msg :: "ustring option"
  up_err :: "ustring option"

text \<open>
  \<^verbatim>\<open>onUpload\<close> of \<^verbatim>\<open>NotesUploader\<close>; \<^verbatim>\<open>userId\<close> and \<^verbatim>\<open>courseId\<close> are props of
  the component, \<^verbatim>\<open>toLowerCase\<close> is the lower-casing of the platform.  The check mark
  of the success messages is U+2705.
\<close>

definition onUpload ::
  "(ustring \<Rightarrow> ustring) \<Rightarrow> ustring \<Rightarrow> ustring \<Rightarrow> uploader \<Rightarrow> ustring fetched \<Rightarrow> uploader \<times> effect list" where
  "onUpload toLowerCase uid cid st r =
     (let st0 = st\<lparr>msg := None, up_err := None\<rparr> in
      if uid = [] then (st0\<lparr>up_err := Some (js ''Set a user id first.'')\<rparr>, [])
      else if cid = [] then (st0\<lparr>up_err := Some (js ''Pick or create a course first.'')\<rparr>, [])
      else
        (case up_file st of
           None \<Rightarrow> (st0\<lparr>up_err := Some (js ''Choose a file to upload.'')\<rparr>, [])
         | Some f \<Rightarrow>
             if kind st = Pdf
                \<and> \<not> (f_type f = js ''application/pdf'' \<or> endsWith (toLowerCase (f_name f)) (js ''.pdf''))
             then (st0\<lparr>up_err := Some (js ''Please choose a .pdf file.'')\<rparr>, [])
             else if kind st = Pdf \<and> f_size f > 100 * 1024 * 1024
             then (st0\<lparr>up_err := Some (js ''PDF too large (>100MB).'')\<rparr>, [])
             else
               (let endpoint = (if kind st = Pdf then js ''/upload/pdf'' else js ''/upload/image'');
                    req = Fetch (PostUpload endpoint uid cid f)
                in case r of
                     Okay text \<Rightarrow>
                       (st0\<lparr>msg := Some (if kind st = Pdf then js ''PDF ingested '' @ [9989]
                                           else js ''Image ingested '' @ [9989]),
                            up_file := None, uploading := False\<rparr>,
                        [req])
                   | NotOk status text \<Rightarrow>
                       (st0\<lparr>up_err := Some (or_else (or_else text (js ''HTTP '' @ show_nat status))
                                                     (js ''Upload failed'')),
                            uploading := False\<rparr>,
                        [req])
                   | Threw message str \<Rightarrow>
                       (st0\<lparr>up_err := Some (or_else message (js ''Upload failed'')),
                            uploading := False\<rparr>,
                        [req]))))"

section \<open>Sample states and spans\<close>

text \<open>A page with a question, a user and a selected course, and two courses.\<close>

definition page0 :: page where
  "page0 = \<lparr>q = js ''What is a heap?'', courseId = js ''c1'', answer = [], sources = [],
     meta = None, loading = False, err = None, courseLabel = [], userId = js ''u1'',
     courses = [], loadingCourses = False, creating = False, newName = [], newTerm = []\<rparr>"

definition algo :: course where
  "algo = \<lparr>c_id = js ''c1'', c_name = js ''Algo'', c_term = Val (js ''Fall'')\<rparr>"

definition logic :: course where
  "logic = \<lparr>c_id = js ''c2'', c_name = js ''Logic'', c_term = Val []\<rparr>"

definition notes_txt :: upfile where
  "notes_txt = \<lparr>f_name = js ''notes.txt'', f_type = js ''text/plain'', f_size = 2048\<rparr>"

definition big_pdf :: upfile where
  "big_pdf = \<lparr>f_name = js ''Lecture.PDF'', f_type = [], f_size = 100 * 1024 * 1024 + 1\<rparr>"

definition uploader0 :: uploader where
  "uploader0 = \<lparr>up_open = True, kind = Pdf, up_file = Some notes_txt, uploading = False,
     msg = None, up_err = None\<rparr>"

definition answer1 :: ask_data where
  "answer1 = \<lparr>d_answer = Some (js ''A heap is a tree.''), d_sources_dedup = None,
     d_sources = None, d_meta = Absent\<rparr>"

text \<open>
  Two asks that overlap: the second one starts before the first has settled, then the
  first settles with an answer, then the second one fails.
\<close>

definition overlapping_asks :: page where
  "overlapping_asks =
     (let s1 = fst (ask_begin page0);
          s2 = fst (ask_begin (s1\<lparr>q := js ''And a trie?''\<rparr>));
          s3 = ask_end s2 (Okay answer1)
      in ask_end s3 (NotOk 500 (js ''boom'')))"

text \<open>
  A wrapper span with a citation link inside: the wrapper expression matches at the
  start of the string and the citation expression matches somewhere in the match; and
  a string with such a span at some index.
\<close>

definition cited_block_here :: "ustring \<Rightarrow> bool" where
  "cited_block_here s =
     (case re_text_block s of
        None \<Rightarrow> False
      | Some (n, caps) \<Rightarrow> regex_test re_citation (take n s))"

fun has_cited_block :: "ustring \<Rightarrow> bool" where
  "has_cited_block [] = False"
| "has_cited_block (c # cs) = (cited_block_here (c # cs) \<or> has_cited_block cs)"


text \<open>A formula with a wrapper that holds no link, and the example of the specification.\<close>

definition plain_formula :: ustring where
  "plain_formula = js ''E = mc^2 '' @ backslash @ js ''text{ no link }''"

definition cited_example :: ustring where
  "cited_example = backslash @ js ''text{See [3](http://x) and [4](http://y)}''"






section \<open>Global replacement\<close>

text \<open>
  Facts about the scan of a global replacement: a string without a match is returned
  as it is; a prefix in which no match begins is copied; a match at the start is
  replaced and the scan goes on behind it; the text before the match matters only to
  a replacement that reads it.
\<close>

lemma regex_test_head: "\<not> regex_test re s \<Longrightarrow> re s = None"
  by (cases s) (simp_all del: not_None_eq)

lemma replace_global_no_match:
  "\<not> regex_test re s \<Longrightarrow> replace_global re f pre s = s"
  by (induction s arbitrary: pre) (simp_all del: not_None_eq)




section \<open>Properties of the sanitizer\<close>




lemma re_text_block_length:
  assumes "re_text_block s = Some (n, caps)"
  shows "0 < n \<and> n \<le> length s"
proof -
  let ?p = "backslash @ js ''text{''"
  let ?r = "drop (length ?p) s"
  let ?body = "takeWhile (\<lambda>c. c \<noteq> 125) ?r"
  have p: "take (length ?p) s = ?p"
    using assms by (simp add: re_text_block_def Let_def split: if_splits)
  have "length (take (length ?p) s) = length ?p" using p by simp
  then have len: "length ?p \<le> length s" by simp
  have "drop (length ?body) ?r \<noteq> []" and n: "n = length ?p + length ?body + 1"
    using assms p by (auto simp: re_text_block_def Let_def split: if_splits list.splits)
  then have "length ?body < length ?r" by simp
  then show ?thesis using len n by simp
qed

lemma has_cited_block_drop: "has_cited_block (drop n s) \<Longrightarrow> has_cited_block s"
proof (induction s arbitrary: n)
  case Nil
  then show ?case by simp
next
  case (Cons c cs)
  then show ?case by (cases n) auto
qed

lemma sanitizeInlineCitations_no_cited_block:
  "\<not> has_cited_block s \<Longrightarrow>
     replace_global re_text_block (\<lambda>pre m post caps. strip_citation_links m) p s = s"
proof (induction s arbitrary: p rule: length_induct)
  case (1 s)
  show ?case
  proof (cases s)
    case Nil
    then show ?thesis by (simp add: re_text_block_def js_def backslash_def)
  next
    case (Cons c cs)
    have tl: "\<And>p'. replace_global re_text_block (\<lambda>pre m post caps. strip_citation_links m) p' cs = cs"
      using 1 Cons by simp
    show ?thesis
    proof (cases "re_text_block (c # cs)")
      case None
      then show ?thesis using Cons tl by simp
    next
      case (Some a)
      obtain n caps where a: "a = (n, caps)" by (cases a)
      have n: "0 < n" "n \<le> length s"
        using re_text_block_length [of s n caps] Some a Cons by simp_all
      have "\<not> regex_test re_citation (take n s)"
        using "1.prems" Some a Cons by (simp add: cited_block_here_def)
      then have blk: "strip_citation_links (take n s) = take n s"
        by (simp add: strip_citation_links_def replace_str_def replace_global_no_match)
      have "\<not> has_cited_block (drop n s)"
        using "1.prems" has_cited_block_drop by blast
      moreover have "length (drop n s) < length s" using n Cons by simp
      ultimately have rest:
        "replace_global re_text_block (\<lambda>pre m post caps. strip_citation_links m) (p @ take n s) (drop n s)
           = drop n s"
        using 1 by blast
      show ?thesis
        using Cons Some a n blk rest by simp
    qed
  qed
qed



text \<open>
  Claim C1.  The claim: where a string has a legacy delimiter, \<^verbatim>\<open>normalizeMath\<close>
  replaces the display markers (backslash with a square bracket) with two dollar signs
  and the inline markers (backslash with a parenthesis) with one.  In the source the
  replacement string of the display markers is \<^verbatim>\<open>'$$'\<close>, and in a replacement
  string of \<^verbatim>\<open>replace\<close> the pattern \<^verbatim>\<open>$$\<close> stands for a single dollar sign.
  So the display formula backslash-[ x backslash-] comes out as \<^verbatim>\<open>$x$\<close>, an
  inline formula, and not as \<^verbatim>\<open>$$x$$\<close>.
\<close>

theorem normalizeMath_display_gets_single_dollar:
  "normalizeMath (backslash @ js ''[x'' @ backslash @ js '']'') = js ''$x$''
   \<and> js ''$x$'' \<noteq> js ''$$x$$''"
  by (simp add: normalizeMath_def replace_str_def re_legacy_def alt_def lit_def re_display_open_def
      re_display_close_def re_inline_open_def re_inline_close_def js_def backslash_def)

text \<open>
  Claim C2, as amended.  For every string without a legacy delimiter,
  \<^verbatim>\<open>normalizeMath\<close> returns the string as it is, so the pipeline is
  \<^verbatim>\<open>sanitizeInlineCitations\<close> alone; and the pipeline returns the string unchanged
  when, in addition, no wrapper span of the string holds a citation link.
\<close>

theorem sanitize_without_legacy_delimiters:
  assumes "\<not> regex_test re_legacy s"
  shows "normalizeMath s = s \<and> sanitize s = sanitizeInlineCitations s
    \<and> (\<not> has_cited_block s \<longrightarrow> sanitize s = s)"
proof -
  have nm: "normalizeMath s = s"
    using assms by (simp add: normalizeMath_def)
  have "\<not> has_cited_block s \<Longrightarrow> sanitizeInlineCitations s = s"
    by (simp add: sanitizeInlineCitations_def replace_fn_def sanitizeInlineCitations_no_cited_block)
  then show ?thesis using nm by (auto simp: sanitize_def)
qed

theorem sanitize_without_legacy_delimiters_witness:
  "\<not> regex_test re_legacy plain_formula \<and> \<not> has_cited_block plain_formula
   \<and> sanitize plain_formula = plain_formula"
proof -
  have legacy: "\<not> regex_test re_legacy plain_formula"
    by (simp add: plain_formula_def re_legacy_def alt_def lit_def re_display_open_def
        re_display_close_def re_inline_open_def re_inline_close_def js_def backslash_def)
  have cited: "\<not> has_cited_block plain_formula"
    by (simp add: plain_formula_def cited_block_here_def re_text_block_def re_citation_def
        js_def backslash_def)
  show ?thesis
    using legacy cited sanitize_without_legacy_delimiters [OF legacy] by blast
qed

text \<open>
  The claim as stated: every string without a legacy delimiter is returned unchanged.
  The example of the specification has no legacy delimiter (its links have a bracket
  and a parenthesis, but no backslash before them), and the pipeline drops its two
  link targets.
\<close>

theorem sanitize_changes_cited_example:
  "\<not> regex_test re_legacy cited_example
   \<and> sanitize cited_example = backslash @ js ''text{See [3] and [4]}''
   \<and> sanitize cited_example \<noteq> cited_example"
  by (simp add: cited_example_def sanitize_def normalizeMath_def sanitizeInlineCitations_def
      replace_fn_def replace_str_def strip_citation_links_def re_text_block_def re_citation_def
      re_legacy_def alt_def lit_def re_display_open_def re_display_close_def re_inline_open_def
      re_inline_close_def js_def backslash_def is_digit_def digit_val_def)




section \<open>Properties of the handlers\<close>

text \<open>
  Claim C4, as amended.  When the question is empty after trimming, or the user id is
  empty, or the course id is empty, \<^verbatim>\<open>ask\<close> sends no request.  An empty user id
  (with a question) sets the message \<^verbatim>\<open>No user id set\<close>, an empty course id (with
  a question and a user id) sets the message \<^verbatim>\<open>No course selected. ...\<close>, and the
  two differ.  An empty question sets no message: the handler returns at once and the
  state is what it was.
\<close>

theorem ask_preconditions:
  "(trim (q st) = [] \<or> userId st = [] \<or> courseId st = [] \<longrightarrow>
      (\<forall>rq. Fetch rq \<notin> set (snd (ask st r))))
   \<and> (trim (q st) = [] \<longrightarrow> ask st r = (st, []))
   \<and> (trim (q st) \<noteq> [] \<and> userId st = [] \<longrightarrow>
        err (fst (ask st r)) = Some (js ''No user id set''))
   \<and> (trim (q st) \<noteq> [] \<and> userId st \<noteq> [] \<and> courseId st = [] \<longrightarrow>
        err (fst (ask st r)) = Some (js ''No course selected. Create or pick a course on the left.''))
   \<and> js ''No user id set'' \<noteq> js ''No course selected. Create or pick a course on the left.''"
  by (simp add: ask_def ask_begin_def js_def)

theorem ask_preconditions_witness:
  "ask (page0\<lparr>q := js ''  ''\<rparr>) (Okay answer1) = (page0\<lparr>q := js ''  ''\<rparr>, [])
   \<and> err (fst (ask (page0\<lparr>userId := []\<rparr>) (Okay answer1))) = Some (js ''No user id set'')
   \<and> snd (ask (page0\<lparr>userId := []\<rparr>) (Okay answer1)) = []
   \<and> err (fst (ask (page0\<lparr>courseId := []\<rparr>) (Okay answer1)))
       = Some (js ''No course selected. Create or pick a course on the left.'')"
  using ask_preconditions [where st = "page0\<lparr>q := js ''  ''\<rparr>" and r = "Okay answer1"]
    ask_preconditions [where st = "page0\<lparr>userId := []\<rparr>" and r = "Okay answer1"]
    ask_preconditions [where st = "page0\<lparr>courseId := []\<rparr>" and r = "Okay answer1"]
  by (simp add: page0_def js_def trim_def is_js_space_def ask_def ask_begin_def)

text \<open>
  The claim as stated asks for a message of its own in the empty-question case.  With
  a question of two spaces the state after \<^verbatim>\<open>ask\<close> is the state before it, and no
  message is set.
\<close>

theorem ask_empty_question_no_message:
  "trim (q (page0\<lparr>q := js ''  ''\<rparr>)) = []
   \<and> ask_begin (page0\<lparr>q := js ''  ''\<rparr>) = (page0\<lparr>q := js ''  ''\<rparr>, None)
   \<and> err (fst (ask_begin (page0\<lparr>q := js ''  ''\<rparr>))) = None"
  by (simp add: page0_def js_def trim_def is_js_space_def ask_begin_def)




text \<open>
  Claim C6.  \<^verbatim>\<open>hydrateLabel\<close>: an empty course id gives the empty label and no
  request; a course id found in the local list gives the label of that course and no
  request; otherwise one request for the course is sent and, when the effect has not
  been cancelled meanwhile, status 403 gives \<^verbatim>\<open>(not your course)\<close>, any other
  failure gives \<^verbatim>\<open>(unknown course)\<close>, and a course gives its label.  The label of
  a course is name, dash, term when the term is present, that is a non-empty string
  (see C10), and the name otherwise.
\<close>

theorem hydrateLabel_priority:
  "(courseId st = [] \<longrightarrow> hydrateLabel st cancelled r = (st\<lparr>courseLabel := []\<rparr>, []))
   \<and> (courseId st \<noteq> [] \<and> find (\<lambda>c. c_id c = courseId st) (courses st) = Some c \<longrightarrow>
        hydrateLabel st cancelled r = (st\<lparr>courseLabel := labelFromCourse (Some c)\<rparr>, []))
   \<and> (courseId st \<noteq> [] \<and> (\<forall>c \<in> set (courses st). c_id c \<noteq> courseId st) \<and> \<not> cancelled \<longrightarrow>
        snd (hydrateLabel st cancelled r) = [Fetch (GetCourse (courseId st) (userId st))]
        \<and> courseLabel (fst (hydrateLabel st cancelled r)) =
            (case r of
               NotOk status body \<Rightarrow>
                 if status = 403 then js ''(not your course)'' else js ''(unknown course)''
             | Threw message str \<Rightarrow> js ''(unknown course)''
             | Okay c' \<Rightarrow> labelFromCourse (Some c')))
   \<and> (c_term c = Val t \<and> t \<noteq> [] \<longrightarrow>
        labelFromCourse (Some c) = c_name c @ js '' '' @ [8212] @ js '' '' @ t)
   \<and> (\<not> (\<exists>t. c_term c = Val t \<and> t \<noteq> []) \<longrightarrow> labelFromCourse (Some c) = c_name c)"
proof -
  have none: "(\<forall>c \<in> set (courses st). c_id c \<noteq> courseId st)
      \<Longrightarrow> find (\<lambda>c. c_id c = courseId st) (courses st) = None"
    by (auto simp: find_None_iff)
  show ?thesis
    by (auto simp: hydrateLabel_def labelFromCourse_def none split: fetched.splits nullable.splits)
qed

theorem hydrateLabel_priority_witness:
  "hydrateLabel (page0\<lparr>courseId := []\<rparr>) False (Okay logic)
      = (page0\<lparr>courseId := [], courseLabel := []\<rparr>, [])
   \<and> courseLabel (fst (hydrateLabel (page0\<lparr>courses := [logic, algo]\<rparr>) False (Okay logic)))
      = js ''Algo'' @ js '' '' @ [8212] @ js '' '' @ js ''Fall''
   \<and> courseLabel (fst (hydrateLabel page0 False (NotOk 403 []))) = js ''(not your course)''
   \<and> courseLabel (fst (hydrateLabel page0 False (NotOk 500 []))) = js ''(unknown course)''
   \<and> courseLabel (fst (hydrateLabel page0 False (Threw [] []))) = js ''(unknown course)''
   \<and> courseLabel (fst (hydrateLabel page0 False (Okay logic))) = js ''Logic''"
  using hydrateLabel_priority [where st = "page0\<lparr>courseId := []\<rparr>" and cancelled = False
        and r = "Okay logic" and c = logic and t = "[]"]
    hydrateLabel_priority [where st = "page0\<lparr>courses := [logic, algo]\<rparr>" and cancelled = False
        and r = "Okay logic" and c = algo and t = "js ''Fall''"]
    hydrateLabel_priority [where st = page0 and cancelled = False and r = "NotOk 403 []"
        and c = logic and t = "[]"]
    hydrateLabel_priority [where st = page0 and cancelled = False and r = "NotOk 500 []"
        and c = logic and t = "[]"]
    hydrateLabel_priority [where st = page0 and cancelled = False and r = "Threw [] []"
        and c = logic and t = "[]"]
    hydrateLabel_priority [where st = page0 and cancelled = False and r = "Okay logic"
        and c = logic and t = "[]"]
  by (simp add: page0_def logic_def algo_def js_def)

text \<open>
  Claim C7.  \<^verbatim>\<open>createCourse\<close> with a name that is empty after trimming leaves the
  state as it is and sends no request (and does nothing at all when a user id is
  set); with an empty user id it shows the alert that asks for a user id, and sends
  no request; with a user id, the name \<^verbatim>\<open>Algo\<close> and an empty term, the request it
  sends carries the name \<^verbatim>\<open>Algo\<close> and the term \<^verbatim>\<open>""\<close>.
\<close>

theorem createCourse_preconditions:
  "(trim (newName st) = [] \<longrightarrow>
      fst (createCourse st r) = st \<and> (\<forall>rq. Fetch rq \<notin> set (snd (createCourse st r))))
   \<and> (trim (newName st) = [] \<and> userId st \<noteq> [] \<longrightarrow> createCourse st r = (st, []))
   \<and> (userId st = [] \<longrightarrow>
        createCourse st r = (st, [Alert (js ''Please set your User ID (UUID) in the sidebar.'')]))
   \<and> (userId st \<noteq> [] \<and> newName st = js ''Algo'' \<and> newTerm st = [] \<longrightarrow>
        hd (snd (createCourse st r)) = Fetch (PostCourse (userId st) (js ''Algo'') []))
   \<and> (userId st \<noteq> [] \<and> trim (newName st) \<noteq> [] \<longrightarrow>
        hd (snd (createCourse st r))
          = Fetch (PostCourse (userId st) (trim (newName st)) (newTerm st)))"
proof -
  have algo: "trim (js ''Algo'') = js ''Algo''"
    by (simp add: trim_def js_def is_js_space_def)
  have algo_ne: "js ''Algo'' \<noteq> []"
    by (simp add: js_def)
  show ?thesis
    by (auto simp: createCourse_def or_else_def algo algo_ne Let_def split: fetched.splits)
qed

theorem createCourse_preconditions_witness:
  "createCourse (page0\<lparr>newName := js ''  '', newTerm := js ''Fall''\<rparr>) (Okay algo)
      = (page0\<lparr>newName := js ''  '', newTerm := js ''Fall''\<rparr>, [])
   \<and> createCourse (page0\<lparr>userId := [], newName := js ''Algo''\<rparr>) (Okay algo)
      = (page0\<lparr>userId := [], newName := js ''Algo''\<rparr>,
         [Alert (js ''Please set your User ID (UUID) in the sidebar.'')])
   \<and> hd (snd (createCourse (page0\<lparr>newName := js ''Algo''\<rparr>) (Okay algo)))
      = Fetch (PostCourse (js ''u1'') (js ''Algo'') [])"
  using createCourse_preconditions [where st = "page0\<lparr>newName := js ''  '', newTerm := js ''Fall''\<rparr>"
        and r = "Okay algo"]
    createCourse_preconditions [where st = "page0\<lparr>userId := [], newName := js ''Algo''\<rparr>"
        and r = "Okay algo"]
    createCourse_preconditions [where st = "page0\<lparr>newName := js ''Algo''\<rparr>" and r = "Okay algo"]
  by (simp add: page0_def js_def trim_def is_js_space_def)

text \<open>
  Claim C8.  \<^verbatim>\<open>onUpload\<close> with kind pdf: a file whose type is not
  \<^verbatim>\<open>application/pdf\<close> and whose lower-cased name does not end in \<^verbatim>\<open>.pdf\<close> is
  rejected with the file-type message, a PDF of more than 100 * 1024 * 1024 bytes with
  the size message, both without a request.  The user id, the course id and the
  presence of the file are checked in that order before that, each with its own
  message.  With kind image and a user id, a course id and a file, the request is
  sent whatever the type, name and size of the file are.
\<close>

theorem onUpload_client_checks:
  "(kind st = Pdf \<and> uid \<noteq> [] \<and> cid \<noteq> [] \<and> up_file st = Some f
      \<and> f_type f \<noteq> js ''application/pdf'' \<and> \<not> endsWith (lower (f_name f)) (js ''.pdf'') \<longrightarrow>
      onUpload lower uid cid st r
        = (st\<lparr>msg := None, up_err := Some (js ''Please choose a .pdf file.'')\<rparr>, []))
   \<and> (kind st = Pdf \<and> uid \<noteq> [] \<and> cid \<noteq> [] \<and> up_file st = Some f
      \<and> (f_type f = js ''application/pdf'' \<or> endsWith (lower (f_name f)) (js ''.pdf''))
      \<and> f_size f > 100 * 1024 * 1024 \<longrightarrow>
      onUpload lower uid cid st r
        = (st\<lparr>msg := None, up_err := Some (js ''PDF too large (>100MB).'')\<rparr>, []))
   \<and> (kind st = Pdf \<and> up_file st = Some f
      \<and> (f_size f > 100 * 1024 * 1024
          \<or> (f_type f \<noteq> js ''application/pdf'' \<and> \<not> endsWith (lower (f_name f)) (js ''.pdf''))) \<longrightarrow>
      snd (onUpload lower uid cid st r) = [] \<and> up_err (fst (onUpload lower uid cid st r)) \<noteq> None)
   \<and> (uid = [] \<longrightarrow>
      onUpload lower uid cid st r
        = (st\<lparr>msg := None, up_err := Some (js ''Set a user id first.'')\<rparr>, []))
   \<and> (uid \<noteq> [] \<and> cid = [] \<longrightarrow>
      onUpload lower uid cid st r
        = (st\<lparr>msg := None, up_err := Some (js ''Pick or create a course first.'')\<rparr>, []))
   \<and> (uid \<noteq> [] \<and> cid \<noteq> [] \<and> up_file st = None \<longrightarrow>
      onUpload lower uid cid st r
        = (st\<lparr>msg := None, up_err := Some (js ''Choose a file to upload.'')\<rparr>, []))
   \<and> (kind st = Image \<and> uid \<noteq> [] \<and> cid \<noteq> [] \<and> up_file st = Some f \<longrightarrow>
      snd (onUpload lower uid cid st r) = [Fetch (PostUpload (js ''/upload/image'') uid cid f)])"
  by (auto simp: onUpload_def Let_def split: fetched.splits)

theorem onUpload_client_checks_witness:
  "onUpload ascii_lower (js ''u1'') (js ''c1'') uploader0 (Okay [])
      = (uploader0\<lparr>up_err := Some (js ''Please choose a .pdf file.'')\<rparr>, [])
   \<and> onUpload ascii_lower (js ''u1'') (js ''c1'') (uploader0\<lparr>up_file := Some big_pdf\<rparr>) (Okay [])
      = (uploader0\<lparr>up_file := Some big_pdf, up_err := Some (js ''PDF too large (>100MB).'')\<rparr>, [])
   \<and> onUpload ascii_lower [] (js ''c1'') uploader0 (Okay [])
      = (uploader0\<lparr>up_err := Some (js ''Set a user id first.'')\<rparr>, [])
   \<and> onUpload ascii_lower (js ''u1'') [] uploader0 (Okay [])
      = (uploader0\<lparr>up_err := Some (js ''Pick or create a course first.'')\<rparr>, [])
   \<and> onUpload ascii_lower (js ''u1'') (js ''c1'') (uploader0\<lparr>up_file := None\<rparr>) (Okay [])
      = (uploader0\<lparr>up_file := None, up_err := Some (js ''Choose a file to upload.'')\<rparr>, [])
   \<and> snd (onUpload ascii_lower (js ''u1'') (js ''c1'') (uploader0\<lparr>kind := Image\<rparr>) (Okay []))
      = [Fetch (PostUpload (js ''/upload/image'') (js ''u1'') (js ''c1'') notes_txt)]"
  using onUpload_client_checks [where st = uploader0 and uid = "js ''u1''" and cid = "js ''c1''"
        and f = notes_txt and lower = ascii_lower and r = "Okay []"]
    onUpload_client_checks [where st = "uploader0\<lparr>up_file := Some big_pdf\<rparr>" and uid = "js ''u1''"
        and cid = "js ''c1''" and f = big_pdf and lower = ascii_lower and r = "Okay []"]
    onUpload_client_checks [where st = uploader0 and uid = "[]" and cid = "js ''c1''"
        and f = notes_txt and lower = ascii_lower and r = "Okay []"]
    onUpload_client_checks [where st = uploader0 and uid = "js ''u1''" and cid = "[]"
        and f = notes_txt and lower = ascii_lower and r = "Okay []"]
    onUpload_client_checks [where st = "uploader0\<lparr>up_file := None\<rparr>" and uid = "js ''u1''"
        and cid = "js ''c1''" and f = notes_txt and lower = ascii_lower and r = "Okay []"]
    onUpload_client_checks [where st = "uploader0\<lparr>kind := Image\<rparr>" and uid = "js ''u1''"
        and cid = "js ''c1''" and f = notes_txt and lower = ascii_lower and r = "Okay []"]
  by (simp add: uploader0_def notes_txt_def big_pdf_def js_def endsWith_def ascii_lower_def)

text \<open>
  Claim C9, as amended.  When \<^verbatim>\<open>ask\<close> passes its checks and starts a request, the
  answer, the sources, the metadata and the error are cleared before the request is
  issued; so an \<^verbatim>\<open>ask\<close> that settles with nothing in between leaves no error
  beside its answer, and no answer, sources or metadata beside its error.  Asks that
  overlap are not guarded beyond this clearing.
\<close>

theorem ask_begin_clears:
  assumes "snd (ask_begin st) = Some req"
  shows "answer (fst (ask_begin st)) = [] \<and> sources (fst (ask_begin st)) = []
    \<and> meta (fst (ask_begin st)) = None \<and> err (fst (ask_begin st)) = None
    \<and> loading (fst (ask_begin st))
    \<and> req = PostAsk (userId st) (courseId st) (q st) (js ''novice'') (js ''worked'')
    \<and> (case r of
          Okay d \<Rightarrow> err (fst (ask st r)) = None
        | NotOk status txt \<Rightarrow>
            answer (fst (ask st r)) = [] \<and> sources (fst (ask st r)) = []
            \<and> meta (fst (ask st r)) = None \<and> err (fst (ask st r)) \<noteq> None
        | Threw message str \<Rightarrow>
            answer (fst (ask st r)) = [] \<and> sources (fst (ask st r)) = []
            \<and> meta (fst (ask st r)) = None \<and> err (fst (ask st r)) \<noteq> None)"
  using assms
  by (auto simp: ask_def ask_begin_def ask_end_def split: if_splits fetched.splits)

theorem ask_begin_clears_witness:
  "snd (ask_begin (page0\<lparr>answer := js ''old'', err := Some (js ''old error'')\<rparr>))
      = Some (PostAsk (js ''u1'') (js ''c1'') (js ''What is a heap?'') (js ''novice'') (js ''worked''))
   \<and> answer (fst (ask_begin (page0\<lparr>answer := js ''old'', err := Some (js ''old error'')\<rparr>))) = []
   \<and> err (fst (ask_begin (page0\<lparr>answer := js ''old'', err := Some (js ''old error'')\<rparr>))) = None"
proof -
  have started: "snd (ask_begin (page0\<lparr>answer := js ''old'', err := Some (js ''old error'')\<rparr>))
      = Some (PostAsk (js ''u1'') (js ''c1'') (js ''What is a heap?'') (js ''novice'') (js ''worked''))"
    by (simp add: ask_begin_def page0_def js_def trim_def is_js_space_def)
  show ?thesis
    using started ask_begin_clears [OF started, where r = "Okay answer1"] by simp
qed

text \<open>
  The claim as stated excludes every interleaving of two asks.  The Enter key calls
  \<^verbatim>\<open>ask\<close> whatever \<^verbatim>\<open>loading\<close> is, so a second ask can start before the first
  has settled.  When the first then settles with an answer and the second fails, the
  page shows the answer of the first ask beside the error of the second.
\<close>

theorem overlapping_asks_stale_answer:
  "snd (ask_begin page0) \<noteq> None
   \<and> snd (ask_begin ((fst (ask_begin page0))\<lparr>q := js ''And a trie?''\<rparr>)) \<noteq> None
   \<and> answer overlapping_asks = js ''A heap is a tree.''
   \<and> err overlapping_asks = Some (js ''boom'')"
  by (simp add: overlapping_asks_def ask_begin_def ask_end_def page0_def answer1_def js_def trim_def
      is_js_space_def or_else_def sanitize_def normalizeMath_def sanitizeInlineCitations_def
      replace_fn_def re_text_block_def re_legacy_def alt_def lit_def re_display_open_def
      re_display_close_def re_inline_open_def re_inline_close_def backslash_def)

text \<open>
  Claim C10.  \<^verbatim>\<open>labelFromCourse\<close>: no course gives the empty label; a term that is
  the empty string, \<^verbatim>\<open>null\<close> or absent gives the name alone; a non-empty term gives
  name, dash, term; and a label other than the name arises only from a non-empty term.
\<close>

theorem labelFromCourse_cases:
  "labelFromCourse None = []
   \<and> (c_term c \<in> {Val [], Null, Undefined} \<longrightarrow> labelFromCourse (Some c) = c_name c)
   \<and> (c_term c = Val t \<and> t \<noteq> [] \<longrightarrow>
        labelFromCourse (Some c) = c_name c @ js '' '' @ [8212] @ js '' '' @ t)
   \<and> (labelFromCourse (Some c) \<noteq> c_name c \<longrightarrow> (\<exists>t. c_term c = Val t \<and> t \<noteq> []))"
  by (auto simp: labelFromCourse_def split: nullable.splits)

theorem labelFromCourse_cases_witness:
  "labelFromCourse (Some logic) = js ''Logic''
   \<and> labelFromCourse (Some algo) = js ''Algo'' @ js '' '' @ [8212] @ js '' '' @ js ''Fall''
   \<and> labelFromCourse (Some (logic\<lparr>c_term := Null\<rparr>)) = js ''Logic''
   \<and> labelFromCourse (Some (logic\<lparr>c_term := Undefined\<rparr>)) = js ''Logic''"
  using labelFromCourse_cases [where c = logic and t = "[]"]
    labelFromCourse_cases [where c = algo and t = "js ''Fall''"]
    labelFromCourse_cases [where c = "logic\<lparr>c_term := Null\<rparr>" and t = "[]"]
    labelFromCourse_cases [where c = "logic\<lparr>c_term := Undefined\<rparr>" and t = "[]"]
  by (simp add: logic_def algo_def js_def)

end
